theory Spec2Isabelle
  imports Complex_Main "HOL-Library.Word" "HOL-Library.Monad_Syntax"
begin

section \<open>Numbers of the firmware\<close>

text \<open>
  The patterns of \<^verbatim>\<open>pattern.h\<close> run on an ESP32, where \<^verbatim>\<open>int\<close> and \<^verbatim>\<open>long\<close> are
  32-bit two's complement and \<^verbatim>\<open>unsigned int\<close> and \<^verbatim>\<open>unsigned long\<close> are 32-bit words.

  \<^item> An \<^verbatim>\<open>int\<close> is modelled as a HOL \<open>int\<close>; \<open>is_int32\<close> says that a value fits the
    type. Signed overflow is undefined in C++, and no definition below wraps a signed
    result.
  \<^item> An \<^verbatim>\<open>unsigned int\<close> is a \<open>32 word\<close>. Where the source mixes \<^verbatim>\<open>int\<close> and
    \<^verbatim>\<open>unsigned int\<close> in a comparison, the \<^verbatim>\<open>int\<close> is converted with \<open>word_of_int\<close>, and
    an unsigned value stored into an \<^verbatim>\<open>int\<close> is read back with \<open>sint\<close>.
  \<^item> A \<^verbatim>\<open>float\<close> or \<^verbatim>\<open>double\<close> is an \<open>xfloat\<close>: a real number, an infinity or
    NaN. Arithmetic on finite values is exact (rounding to 24 or 53 bits is not
    modelled), a division by zero gives an infinity or NaN as in IEEE 754, with the zero
    divisor taken as \<open>+0\<close>, and every comparison with NaN is false.
  \<^item> Converting a \<^verbatim>\<open>float\<close> to \<^verbatim>\<open>int\<close> truncates toward zero; it is undefined in C++
    for NaN, for an infinity and for a value whose truncation does not fit. The model
    returns \<open>None\<close> there, so every function that converts returns an \<open>option\<close>.
\<close>

type_synonym uint32 = "32 word"

definition is_int32 :: "int \<Rightarrow> bool" where
  "is_int32 i \<longleftrightarrow> - (2 ^ 31) \<le> i \<and> i < 2 ^ 31"

datatype xfloat = Fin real | PInf | NInf | NaN

definition xint :: "int \<Rightarrow> xfloat" where
  "xint i = Fin (of_int i)"

definition xuns :: "uint32 \<Rightarrow> xfloat" where
  "xuns w = Fin (real (unat w))"

fun xmul :: "xfloat \<Rightarrow> xfloat \<Rightarrow> xfloat" where
  "xmul (Fin a) (Fin b) = Fin (a * b)"
| "xmul (Fin a) PInf = (if a = 0 then NaN else if 0 < a then PInf else NInf)"
| "xmul (Fin a) NInf = (if a = 0 then NaN else if 0 < a then NInf else PInf)"
| "xmul PInf (Fin b) = (if b = 0 then NaN else if 0 < b then PInf else NInf)"
| "xmul NInf (Fin b) = (if b = 0 then NaN else if 0 < b then NInf else PInf)"
| "xmul PInf PInf = PInf"
| "xmul PInf NInf = NInf"
| "xmul NInf PInf = NInf"
| "xmul NInf NInf = PInf"
| "xmul NaN y = NaN"
| "xmul x NaN = NaN"

fun xdiv :: "xfloat \<Rightarrow> xfloat \<Rightarrow> xfloat" where
  "xdiv (Fin a) (Fin b) =
     (if b \<noteq> 0 then Fin (a / b)
      else if a = 0 then NaN else if 0 < a then PInf else NInf)"
| "xdiv (Fin a) PInf = Fin 0"
| "xdiv (Fin a) NInf = Fin 0"
| "xdiv PInf (Fin b) = (if 0 \<le> b then PInf else NInf)"
| "xdiv NInf (Fin b) = (if 0 \<le> b then NInf else PInf)"
| "xdiv PInf PInf = NaN"
| "xdiv PInf NInf = NaN"
| "xdiv NInf PInf = NaN"
| "xdiv NInf NInf = NaN"
| "xdiv NaN y = NaN"
| "xdiv x NaN = NaN"

fun xsub :: "xfloat \<Rightarrow> xfloat \<Rightarrow> xfloat" where
  "xsub (Fin a) (Fin b) = Fin (a - b)"
| "xsub (Fin a) PInf = NInf"
| "xsub (Fin a) NInf = PInf"
| "xsub PInf (Fin b) = PInf"
| "xsub NInf (Fin b) = NInf"
| "xsub PInf PInf = NaN"
| "xsub PInf NInf = PInf"
| "xsub NInf PInf = NInf"
| "xsub NInf NInf = NaN"
| "xsub NaN y = NaN"
| "xsub x NaN = NaN"

fun xless :: "xfloat \<Rightarrow> xfloat \<Rightarrow> bool" where
  "xless (Fin a) (Fin b) = (a < b)"
| "xless (Fin a) PInf = True"
| "xless NInf (Fin b) = True"
| "xless NInf PInf = True"
| "xless x y = False"

definition trunc :: "real \<Rightarrow> int" where
  "trunc r = (if 0 \<le> r then \<lfloor>r\<rfloor> else \<lceil>r\<rceil>)"

text \<open>\<^verbatim>\<open>int(x)\<close> and the implicit conversion of a floating value stored into an \<^verbatim>\<open>int\<close>.\<close>

fun to_int :: "xfloat \<Rightarrow> int option" where
  "to_int (Fin r) = (if is_int32 (trunc r) then Some (trunc r) else None)"
| "to_int x = None"

text \<open>C++ integer division truncates toward zero; a zero divisor is checked by the caller.\<close>

definition tdiv :: "int \<Rightarrow> int \<Rightarrow> int" where
  "tdiv a b = sgn a * sgn b * (\<bar>a\<bar> div \<bar>b\<bar>)"

subsection \<open>The Arduino macros and \<^verbatim>\<open>map\<close>\<close>

text \<open>
  \<^verbatim>\<open>constrain(amt, low, high)\<close> is the Arduino macro
  \<^verbatim>\<open>((amt)<(low)?(low):((amt)>(high)?(high):(amt)))\<close>. It is unfolded at the types of
  its three uses in \<^verbatim>\<open>pattern.h\<close>: all \<^verbatim>\<open>int\<close>; an \<^verbatim>\<open>int\<close> against an \<^verbatim>\<open>int\<close> lower and
  an \<^verbatim>\<open>unsigned\<close> upper limit (the second comparison and the result are unsigned); a
  \<^verbatim>\<open>double\<close> against an \<^verbatim>\<open>int\<close> lower and an \<^verbatim>\<open>unsigned\<close> upper limit (the result is a
  \<^verbatim>\<open>double\<close>).
\<close>

definition constrain_i :: "int \<Rightarrow> int \<Rightarrow> int \<Rightarrow> int" where
  "constrain_i amt low high = (if amt < low then low else if amt > high then high else amt)"

definition constrain_u :: "int \<Rightarrow> int \<Rightarrow> uint32 \<Rightarrow> uint32" where
  "constrain_u amt low high =
     (if amt < low then word_of_int low
      else if high < word_of_int amt then high else word_of_int amt)"

definition constrain_d :: "xfloat \<Rightarrow> int \<Rightarrow> uint32 \<Rightarrow> xfloat" where
  "constrain_d amt low high =
     (if xless amt (xint low) then xint low
      else if xless (xuns high) amt then xuns high else amt)"

text \<open>
  \<^verbatim>\<open>long map(long x, long in_min, long in_max, long out_min, long out_max)\<close> of the
  Arduino core: \<^verbatim>\<open>(x - in_min) * (out_max - out_min) / (in_max - in_min) + out_min\<close>.
  Both call sites pass constant, distinct \<^verbatim>\<open>in_min\<close> and \<^verbatim>\<open>in_max\<close>.
\<close>

definition arduino_map :: "int \<Rightarrow> int \<Rightarrow> int \<Rightarrow> int \<Rightarrow> int \<Rightarrow> int" where
  "arduino_map x in_min in_max out_min out_max =
     tdiv ((x - in_min) * (out_max - out_min)) (in_max - in_min) + out_min"

text \<open>
  Modelled from the spec: \<^verbatim>\<open>fscale\<close> of \<^verbatim>\<open>PatternMath.h\<close>, which is not among the
  sources. The spec's range-mapping primitive clamps the value into
  \<open>[inMin, inMax]\<close>, normalizes it to \<open>[0, 1]\<close> and interpolates linearly into
  \<open>[outMin, outMax]\<close>, where \<open>outMin\<close> may exceed \<open>outMax\<close>; every call site passes the
  neutral curvature 0 as its last argument, for which the exponent is 1 and the
  interpolation is linear, so the curvature is not a parameter here.
\<close>

definition fscale :: "real \<Rightarrow> real \<Rightarrow> real \<Rightarrow> real \<Rightarrow> real \<Rightarrow> real" where
  "fscale originalMin originalMax newBegin newEnd inputValue =
     (let v = max originalMin (min originalMax inputValue)
      in newBegin + (v - originalMin) / (originalMax - originalMin) * (newEnd - newBegin))"

section \<open>The motion command and the base class\<close>

record motionParameter =
  stroke :: int
  speed :: int
  acceleration :: int
  skip :: bool

text \<open>
  The fields of \<^verbatim>\<open>class Pattern\<close>, \<^verbatim>\<open>_stroke\<close> written \<open>m_stroke\<close> and so on. Every
  variant is a record extending this one.
\<close>

record Pattern =
  m_stroke :: int
  m_depth :: int
  m_speed :: int
  m_sensation :: real
  m_index :: int
  m_name :: string
  m_nextMove :: motionParameter
  m_startDelayMillis :: int
  m_delayInMillis :: int
  m_maxSpeed :: uint32
  m_maxAcceleration :: uint32
  m_stepsPerMM :: uint32

definition setSpeed :: "int \<Rightarrow> 'a Pattern_scheme \<Rightarrow> 'a Pattern_scheme" where
  "setSpeed v p = p\<lparr>m_speed := v\<rparr>"

definition setStroke :: "int \<Rightarrow> 'a Pattern_scheme \<Rightarrow> 'a Pattern_scheme" where
  "setStroke s p = p\<lparr>m_stroke := s\<rparr>"

definition setDepth :: "int \<Rightarrow> 'a Pattern_scheme \<Rightarrow> 'a Pattern_scheme" where
  "setDepth d p = p\<lparr>m_depth := d\<rparr>"

definition setSensation :: "real \<Rightarrow> 'a Pattern_scheme \<Rightarrow> 'a Pattern_scheme" where
  "setSensation s p = p\<lparr>m_sensation := s\<rparr>"

definition setSpeedLimit ::
  "uint32 \<Rightarrow> uint32 \<Rightarrow> uint32 \<Rightarrow> 'a Pattern_scheme \<Rightarrow> 'a Pattern_scheme" where
  "setSpeedLimit maxSpeed maxAcceleration stepsPerMM p =
     p\<lparr>m_maxSpeed := maxSpeed, m_maxAcceleration := maxAcceleration,
       m_stepsPerMM := stepsPerMM\<rparr>"


definition updateDelay :: "int \<Rightarrow> 'a Pattern_scheme \<Rightarrow> 'a Pattern_scheme" where
  "updateDelay delayInMillis p = p\<lparr>m_delayInMillis := delayInMillis\<rparr>"


definition calRangeOfStroke :: "'a Pattern_scheme \<Rightarrow> xfloat" where
  "calRangeOfStroke p = xint (min \<bar>m_depth p\<bar> \<bar>m_stroke p\<bar>)"

text \<open>The divisor of the three \<^verbatim>\<open>_calTimeOfStroke\<close>: \<^verbatim>\<open>constrain(_speed, 1, _maxSpeed)\<close>.\<close>

definition speedDivisor :: "'a Pattern_scheme \<Rightarrow> uint32" where
  "speedDivisor p = constrain_u (m_speed p) 1 (m_maxSpeed p)"

definition calTimeOfStroke :: "'a Pattern_scheme \<Rightarrow> xfloat" where
  "calTimeOfStroke p = xdiv (calRangeOfStroke p) (xuns (speedDivisor p))"

text \<open>The override of \<^verbatim>\<open>TeasingPounding\<close> and \<^verbatim>\<open>HalfnHalf\<close>, the same text in both.\<close>

definition calTimeOfStroke2 :: "'a Pattern_scheme \<Rightarrow> xfloat" where
  "calTimeOfStroke2 p = xdiv (xmul (Fin 2) (calRangeOfStroke p)) (xuns (speedDivisor p))"

text \<open>
  The constructor \<^verbatim>\<open>Pattern(const char *str)\<close> with the member initializers. The C++
  leaves \<^verbatim>\<open>_stroke\<close>, \<^verbatim>\<open>_depth\<close> and \<^verbatim>\<open>_speed\<close> uninitialized; the values they hold are
  parameters here.
\<close>

definition new_Pattern :: "string \<Rightarrow> int \<Rightarrow> int \<Rightarrow> int \<Rightarrow> Pattern" where
  "new_Pattern str s d v =
     \<lparr>m_stroke = s, m_depth = d, m_speed = v, m_sensation = 0, m_index = - 1,
      m_name = str,
      m_nextMove = \<lparr>stroke = 0, speed = 0, acceleration = 0, skip = False\<rparr>,
      m_startDelayMillis = 0, m_delayInMillis = 0,
      m_maxSpeed = 0, m_maxAcceleration = 0, m_stepsPerMM = 0\<rparr>"

text \<open>\<^verbatim>\<open>Pattern::nextTarget\<close>: records the index and returns the last command unchanged.\<close>

definition nextTarget_Pattern ::
  "uint32 \<Rightarrow> 'a Pattern_scheme \<Rightarrow> motionParameter \<times> 'a Pattern_scheme" where
  "nextTarget_Pattern index p = (m_nextMove p, p\<lparr>m_index := sint index\<rparr>)"

text \<open>
  \<^verbatim>\<open>Pattern::_setIdleState\<close>. \<open>idleSpeed\<close> and \<open>idleAcceleration\<close> are its first two
  assignments, \<^verbatim>\<open>int(0.05 * _maxSpeed)\<close> and \<^verbatim>\<open>int(0.5 * _maxAcceleration)\<close>, which the
  overrides of \<^verbatim>\<open>SimplePenetration\<close> and \<^verbatim>\<open>Insist\<close> repeat.
\<close>

definition idleSpeed :: "'a Pattern_scheme \<Rightarrow> int option" where
  "idleSpeed p = to_int (xmul (Fin 0.05) (xuns (m_maxSpeed p)))"

definition idleAcceleration :: "'a Pattern_scheme \<Rightarrow> int option" where
  "idleAcceleration p = to_int (xmul (Fin 0.5) (xuns (m_maxAcceleration p)))"

definition setIdleState ::
  "'a Pattern_scheme \<Rightarrow> (motionParameter \<times> 'a Pattern_scheme) option" where
  "setIdleState p = do {
     v \<leftarrow> idleSpeed p;
     a \<leftarrow> idleAcceleration p;
     let mv = \<lparr>stroke = constrain_i (m_depth p - m_stroke p) 0 (m_depth p),
               speed = v, acceleration = a, skip = False\<rparr>;
     Some (mv, p\<lparr>m_nextMove := mv\<rparr>)
   }"

section \<open>SimplePenetration\<close>

record SimplePenetration = Pattern +
  sp_timeOfStroke :: xfloat

definition new_SimplePenetration :: "string \<Rightarrow> int \<Rightarrow> int \<Rightarrow> int \<Rightarrow> SimplePenetration" where
  "new_SimplePenetration str s d v =
     \<lparr>m_stroke = s, m_depth = d, m_speed = v, m_sensation = 0, m_index = - 1,
      m_name = str,
      m_nextMove = \<lparr>stroke = 0, speed = 0, acceleration = 0, skip = False\<rparr>,
      m_startDelayMillis = 0, m_delayInMillis = 0,
      m_maxSpeed = 0, m_maxAcceleration = 0, m_stepsPerMM = 0,
      sp_timeOfStroke = Fin 1\<rparr>"

definition setIdleState_SimplePenetration ::
  "SimplePenetration \<Rightarrow> (motionParameter \<times> SimplePenetration) option" where
  "setIdleState_SimplePenetration p = do {
     v \<leftarrow> idleSpeed p;
     a \<leftarrow> idleAcceleration p;
     let mv = \<lparr>stroke = 0, speed = v, acceleration = a, skip = False\<rparr>;
     Some (mv, p\<lparr>m_nextMove := mv\<rparr>)
   }"

definition nextTarget_SimplePenetration ::
  "uint32 \<Rightarrow> SimplePenetration \<Rightarrow> (motionParameter \<times> SimplePenetration) option" where
  "nextTarget_SimplePenetration index p =
     (if m_speed p = 0 then setIdleState_SimplePenetration p
      else do {
        let t = calTimeOfStroke p;
        v \<leftarrow> to_int (constrain_d (xmul (Fin 1.5) (xint (m_speed p))) 0 (m_maxSpeed p));
        a \<leftarrow> to_int (constrain_d (xdiv (xmul (Fin 3) (xint v)) t) 0 (m_maxAcceleration p));
        let mv = \<lparr>stroke = (if index mod 2 \<noteq> 0 then m_depth p else 0),
                  speed = v, acceleration = a, skip = False\<rparr>;
        Some (mv, p\<lparr>m_nextMove := mv, m_index := sint index, sp_timeOfStroke := t\<rparr>)
      })"

section \<open>TeasingPounding\<close>

record TeasingPounding = Pattern +
  tp_timeOfStroke :: xfloat
  tp_timeOfFastStroke :: xfloat
  tp_timeOfInStroke :: xfloat
  tp_timeOfOutStroke :: xfloat


text \<open>
  The time of the faster stroke, the first statement of both \<^verbatim>\<open>_updateStrokeTiming\<close>:
  \<^verbatim>\<open>(0.5 * _timeOfStroke) / fscale(0.0, 100.0, 1.0, 5.0, abs(_sensation), 0.0)\<close>.
\<close>

definition timeOfFastStroke :: "xfloat \<Rightarrow> real \<Rightarrow> xfloat" where
  "timeOfFastStroke t sensation =
     xdiv (xmul (Fin 0.5) t) (Fin (fscale 0 100 1 5 \<bar>sensation\<bar>))"

definition updateStrokeTiming_TeasingPounding :: "TeasingPounding \<Rightarrow> TeasingPounding" where
  "updateStrokeTiming_TeasingPounding p =
     (let fast = timeOfFastStroke (tp_timeOfStroke p) (m_sensation p)
      in if m_sensation p > 0
         then p\<lparr>tp_timeOfFastStroke := fast, tp_timeOfInStroke := fast,
                tp_timeOfOutStroke := xsub (tp_timeOfStroke p) fast\<rparr>
         else p\<lparr>tp_timeOfFastStroke := fast, tp_timeOfOutStroke := fast,
                tp_timeOfInStroke := xsub (tp_timeOfStroke p) fast\<rparr>)"


section \<open>RoboStroke\<close>

record RoboStroke = Pattern +
  rs_timeOfStroke :: xfloat
  rs_x :: real

definition new_RoboStroke :: "string \<Rightarrow> int \<Rightarrow> int \<Rightarrow> int \<Rightarrow> RoboStroke" where
  "new_RoboStroke str s d v =
     \<lparr>m_stroke = s, m_depth = d, m_speed = v, m_sensation = 0, m_index = - 1,
      m_name = str,
      m_nextMove = \<lparr>stroke = 0, speed = 0, acceleration = 0, skip = False\<rparr>,
      m_startDelayMillis = 0, m_delayInMillis = 0,
      m_maxSpeed = 0, m_maxAcceleration = 0, m_stepsPerMM = 0,
      rs_timeOfStroke = Fin 1, rs_x = 1 / 3\<rparr>"

text \<open>The split fraction \<^verbatim>\<open>_x\<close> that \<^verbatim>\<open>RoboStroke::nextTarget\<close> stores for a sensation.\<close>

definition scaleSensation :: "real \<Rightarrow> real" where
  "scaleSensation sensation =
     (if sensation \<ge> 0 then fscale 0 100 (1 / 3) 0.5 sensation
      else fscale 0 100 (1 / 3) 0.05 (- sensation))"

text \<open>
  The command is computed from the \<^verbatim>\<open>_x\<close> the previous call stored; the new \<^verbatim>\<open>_x\<close> is
  stored after the speed and the acceleration, in the order of the source.
\<close>

definition nextTarget_RoboStroke ::
  "uint32 \<Rightarrow> RoboStroke \<Rightarrow> (motionParameter \<times> RoboStroke) option" where
  "nextTarget_RoboStroke index p =
     (if m_speed p = 0 then setIdleState p
      else do {
        let t = calTimeOfStroke p;
        q \<leftarrow> to_int (xdiv (xint (m_speed p)) (Fin (1 - rs_x p)));
        let v = sint (constrain_u q 0 (m_maxSpeed p));
        qa \<leftarrow> to_int (xdiv (xint (m_speed p)) (Fin (rs_x p)));
        let a = sint (constrain_u qa 0 (m_maxAcceleration p));
        let x = scaleSensation (m_sensation p);
        let mv = \<lparr>stroke = (if index mod 2 \<noteq> 0
                            then constrain_i (m_depth p - m_stroke p) 0 (m_depth p)
                            else m_depth p),
                  speed = v, acceleration = a, skip = False\<rparr>;
        Some (mv, p\<lparr>m_nextMove := mv, m_index := sint index, rs_timeOfStroke := t, rs_x := x\<rparr>)
      })"

section \<open>HalfnHalf\<close>

record HalfnHalf = Pattern +
  hh_timeOfStroke :: xfloat
  hh_timeOfFastStroke :: xfloat
  hh_timeOfInStroke :: xfloat
  hh_timeOfOutStroke :: xfloat
  hh_half :: bool

definition new_HalfnHalf :: "string \<Rightarrow> int \<Rightarrow> int \<Rightarrow> int \<Rightarrow> HalfnHalf" where
  "new_HalfnHalf str s d v =
     \<lparr>m_stroke = s, m_depth = d, m_speed = v, m_sensation = 0, m_index = - 1,
      m_name = str,
      m_nextMove = \<lparr>stroke = 0, speed = 0, acceleration = 0, skip = False\<rparr>,
      m_startDelayMillis = 0, m_delayInMillis = 0,
      m_maxSpeed = 0, m_maxAcceleration = 0, m_stepsPerMM = 0,
      hh_timeOfStroke = Fin 1, hh_timeOfFastStroke = Fin 1,
      hh_timeOfInStroke = Fin 1, hh_timeOfOutStroke = Fin 1, hh_half = True\<rparr>"

definition updateStrokeTiming_HalfnHalf :: "HalfnHalf \<Rightarrow> HalfnHalf" where
  "updateStrokeTiming_HalfnHalf p =
     (let fast = timeOfFastStroke (hh_timeOfStroke p) (m_sensation p)
      in if m_sensation p > 0
         then p\<lparr>hh_timeOfFastStroke := fast, hh_timeOfInStroke := fast,
                hh_timeOfOutStroke := xsub (hh_timeOfStroke p) fast\<rparr>
         else p\<lparr>hh_timeOfFastStroke := fast, hh_timeOfOutStroke := fast,
                hh_timeOfInStroke := xsub (hh_timeOfStroke p) fast\<rparr>)"

definition nextTarget_HalfnHalf ::
  "uint32 \<Rightarrow> HalfnHalf \<Rightarrow> (motionParameter \<times> HalfnHalf) option" where
  "nextTarget_HalfnHalf index p =
     (if m_speed p = 0 then setIdleState p
      else do {
        let p = updateStrokeTiming_HalfnHalf (p\<lparr>hh_timeOfStroke := calTimeOfStroke2 p\<rparr>);
        let p = (if index = 0 then p\<lparr>hh_half := True\<rparr> else p);
        let strk = (if hh_half p then tdiv (m_stroke p) 2 else m_stroke p);
        if index mod 2 \<noteq> 0 then do {
          q \<leftarrow> to_int (xdiv (xmul (Fin 1.5) (xint (m_stroke p))) (hh_timeOfOutStroke p));
          let v = sint (constrain_u q 0 (m_maxSpeed p));
          qa \<leftarrow> to_int (xdiv (xmul (Fin 3) (xint v)) (hh_timeOfOutStroke p));
          let a = sint (constrain_u qa 0 (m_maxAcceleration p));
          let mv = \<lparr>stroke = constrain_i (m_depth p - m_stroke p) 0 (m_depth p),
                    speed = v, acceleration = a, skip = False\<rparr>;
          Some (mv, p\<lparr>m_nextMove := mv, m_index := sint index, hh_half := \<not> hh_half p\<rparr>)
        } else do {
          q \<leftarrow> to_int (xdiv (xmul (Fin 1.5) (xint (m_stroke p))) (hh_timeOfInStroke p));
          let v = sint (constrain_u q 0 (m_maxSpeed p));
          qa \<leftarrow> to_int (xdiv (xmul (Fin 3) (xint v)) (hh_timeOfInStroke p));
          let a = sint (constrain_u qa 0 (m_maxAcceleration p));
          let mv = \<lparr>stroke = constrain_i ((m_depth p - m_stroke p) + strk) 0 (m_depth p),
                    speed = v, acceleration = a, skip = False\<rparr>;
          Some (mv, p\<lparr>m_nextMove := mv, m_index := sint index\<rparr>)
        }
      })"

section \<open>Deeper\<close>

record Deeper = Pattern +
  dp_timeOfStroke :: xfloat
  dp_countStrokesForRamp :: int


text \<open>
  The ramp length \<^verbatim>\<open>Deeper::nextTarget\<close> stores in \<^verbatim>\<open>_countStrokesForRamp\<close>; the
  \<^verbatim>\<open>float\<close> sensation is converted to the \<^verbatim>\<open>long\<close> parameter of \<^verbatim>\<open>map\<close>.
\<close>

definition countStrokesForRamp :: "real \<Rightarrow> int option" where
  "countStrokesForRamp sensation =
     (if sensation < 0
      then do { x \<leftarrow> to_int (Fin sensation); Some (arduino_map x (- 100) 0 2 11) }
      else do { x \<leftarrow> to_int (Fin sensation); Some (arduino_map x 0 100 11 32) })"

text \<open>
  \<^verbatim>\<open>(index / 2) % _countStrokesForRamp + 1\<close>: \<^verbatim>\<open>index\<close> is unsigned, so the count is
  converted to unsigned and the arithmetic is that of 32-bit words.
\<close>

definition cycleIndex :: "uint32 \<Rightarrow> int \<Rightarrow> int" where
  "cycleIndex index count = sint (index div 2 mod word_of_int count + 1)"

definition nextTarget_Deeper ::
  "uint32 \<Rightarrow> Deeper \<Rightarrow> (motionParameter \<times> Deeper) option" where
  "nextTarget_Deeper index p =
     (if m_speed p = 0 then setIdleState p
      else do {
        let t = calTimeOfStroke p;
        count \<leftarrow> countStrokesForRamp (m_sensation p);
        if count = 0 then None
        else do {
          let slope = tdiv (m_stroke p) count;
          let amplitude = slope * cycleIndex index count;
          q \<leftarrow> to_int (xdiv (xmul (Fin 1.5) (xint amplitude)) t);
          let v = sint (constrain_u q 0 (m_maxSpeed p));
          qa \<leftarrow> to_int (xdiv (xmul (Fin 3) (xint v)) t);
          let a = sint (constrain_u qa 0 (m_maxAcceleration p));
          let mv = \<lparr>stroke = (if index mod 2 \<noteq> 0
                              then constrain_i (m_depth p - m_stroke p) 0 (m_depth p)
                              else constrain_i ((m_depth p - m_stroke p) + amplitude) 0 (m_depth p)),
                    speed = v, acceleration = a, skip = False\<rparr>;
          Some (mv, p\<lparr>m_nextMove := mv, m_index := sint index,
                      dp_timeOfStroke := t, dp_countStrokesForRamp := count\<rparr>)
        }
      })"

section \<open>StopNGo\<close>

record StopNGo = Pattern +
  sg_timeOfStroke :: xfloat
  sg_numberOfStrokes :: int
  sg_strokeSeriesIndex :: int
  sg_strokeIndex :: int
  sg_countStrokesUp :: bool

definition new_StopNGo :: "string \<Rightarrow> int \<Rightarrow> int \<Rightarrow> int \<Rightarrow> StopNGo" where
  "new_StopNGo str s d v =
     \<lparr>m_stroke = s, m_depth = d, m_speed = v, m_sensation = 0, m_index = - 1,
      m_name = str,
      m_nextMove = \<lparr>stroke = 0, speed = 0, acceleration = 0, skip = False\<rparr>,
      m_startDelayMillis = 0, m_delayInMillis = 0,
      m_maxSpeed = 0, m_maxAcceleration = 0, m_stepsPerMM = 0,
      sg_timeOfStroke = Fin 1, sg_numberOfStrokes = 5, sg_strokeSeriesIndex = 1,
      sg_strokeIndex = 0, sg_countStrokesUp = True\<rparr>"

text \<open>The delay \<^verbatim>\<open>StopNGo::setSensation\<close> passes to \<^verbatim>\<open>_updateDelay\<close>.\<close>

definition sensationDelay :: "real \<Rightarrow> int option" where
  "sensationDelay sensation =
     do { x \<leftarrow> to_int (Fin sensation); Some (arduino_map x (- 100) 100 100 10000) }"

definition setSensation_StopNGo :: "real \<Rightarrow> StopNGo \<Rightarrow> StopNGo option" where
  "setSensation_StopNGo sensation p =
     do { d \<leftarrow> sensationDelay sensation;
          Some (updateDelay d (p\<lparr>m_sensation := sensation\<rparr>)) }"




section \<open>Insist\<close>



text \<open>\<^verbatim>\<open>(100 - abs(_sensation)) / 100.0f\<close>, the first statement of \<^verbatim>\<open>_updateRealStroke\<close>.\<close>

definition strokeFraction :: "real \<Rightarrow> real" where
  "strokeFraction sensation = (100 - \<bar>sensation\<bar>) / 100"




section \<open>The vocabulary of the properties\<close>



text \<open>The fields of a returned command other than the target position.\<close>

definition rates :: "motionParameter \<times> 'a \<Rightarrow> int \<times> int \<times> bool" where
  "rates r = (speed (fst r), acceleration (fst r), skip (fst r))"

text \<open>
  The idle-fallback command in the spec's words: the velocity is 5% of the maximum
  velocity, the acceleration 50% of the maximum acceleration, both as integers, the
  target is \<open>clamp(depthLimitSteps - strokeLengthSteps, 0, depthLimitSteps)\<close> and skip
  is false.
\<close>

definition idleFallback :: "'a Pattern_scheme \<Rightarrow> motionParameter" where
  "idleFallback p =
     \<lparr>stroke = constrain_i (m_depth p - m_stroke p) 0 (m_depth p),
      speed = uint (m_maxSpeed p) * 5 div 100,
      acceleration = uint (m_maxAcceleration p) * 50 div 100,
      skip = False\<rparr>"

text \<open>
  The setter calls of a session with the limits 1000 and 10000, a
  depth of 1000 steps, a stroke of 200 steps and the speed 100, used for the examples.
\<close>

definition configure :: "'a Pattern_scheme \<Rightarrow> 'a Pattern_scheme" where
  "configure p = setSpeed 100 (setStroke 200 (setDepth 1000 (setSpeedLimit 1000 10000 80 p)))"

section \<open>Truncation, words and the integer maps\<close>

lemma trunc_of_int [simp]: "trunc (of_int i) = i"
  by (simp add: trunc_def)

lemma trunc_numeral [simp]:
  "trunc (numeral n) = numeral n" "trunc (- numeral n) = - numeral n" "trunc 0 = 0" "trunc 1 = 1"
  by (simp_all add: trunc_def)

lemma trunc_mono:
  assumes "a \<le> b"
  shows "trunc a \<le> trunc b"
proof (cases "0 \<le> a")
  case True
  then have "0 \<le> b" using assms by simp
  then show ?thesis using True assms by (simp add: trunc_def floor_mono)
next
  case False
  show ?thesis
  proof (cases "0 \<le> b")
    case True
    have "\<lceil>a\<rceil> \<le> 0" using False by (simp add: ceiling_le_zero)
    moreover have "0 \<le> \<lfloor>b\<rfloor>" using True by simp
    ultimately have "\<lceil>a\<rceil> \<le> \<lfloor>b\<rfloor>" by linarith
    then show ?thesis using False True by (simp add: trunc_def)
  next
    case nb: False
    then show ?thesis using False assms by (simp add: trunc_def ceiling_mono)
  qed
qed

lemma trunc_ge: "of_int l \<le> r \<Longrightarrow> l \<le> trunc r"
  using trunc_mono [of "of_int l" r] by simp

lemma trunc_le: "r \<le> of_int u \<Longrightarrow> trunc r \<le> u"
  using trunc_mono [of r "of_int u"] by simp

lemma to_int_sensation:
  assumes "- 100 \<le> s" "s \<le> 100"
  shows "to_int (Fin s) = Some (trunc s)" "- 100 \<le> trunc s" "trunc s \<le> 100"
proof -
  show a: "- 100 \<le> trunc s" using trunc_ge [of "- 100" s] assms by simp
  show b: "trunc s \<le> 100" using trunc_le [of s 100] assms by simp
  show "to_int (Fin s) = Some (trunc s)" using a b by (simp add: is_int32_def)
qed

lemma tdiv_nonneg: "0 \<le> a \<Longrightarrow> 0 < b \<Longrightarrow> tdiv a b = a div b"
  by (cases "a = 0") (simp_all add: tdiv_def)

lemma sensationDelay_eq:
  assumes "- 100 \<le> s" "s \<le> 100"
  shows "sensationDelay s = Some (100 + (trunc s + 100) * 9900 div 200)"
  using to_int_sensation [OF assms]
  by (simp add: sensationDelay_def arduino_map_def tdiv_nonneg)

lemma setSensation_StopNGo_delay:
  assumes "- 100 \<le> s" "s \<le> 100"
  shows "map_option m_delayInMillis (setSensation_StopNGo s p) =
         Some (100 + (trunc s + 100) * 9900 div 200)"
  by (simp add: setSensation_StopNGo_def sensationDelay_eq [OF assms] updateDelay_def)

text \<open>
  C3, amended. After \<^verbatim>\<open>StopNGo::setSensation(s)\<close> with \<open>s\<close> in \<open>[-100, 100]\<close> the stored
  delay is \<open>100 + (trunc s + 100) * 9900 div 200\<close> milliseconds: a non-decreasing function
  of the sensation, linear up to the truncations of the integer arithmetic, between
  100 ms at \<open>s = -100\<close> and 10000 ms at \<open>s = 100\<close>.
\<close>

theorem StopNGo_delay_nondecreasing:
  assumes "- 100 \<le> s1" "s1 \<le> s2" "s2 \<le> 100"
  shows "\<exists>d1 d2. map_option m_delayInMillis (setSensation_StopNGo s1 p) = Some d1
           \<and> map_option m_delayInMillis (setSensation_StopNGo s2 p) = Some d2
           \<and> d1 = 100 + (trunc s1 + 100) * 9900 div 200
           \<and> d2 = 100 + (trunc s2 + 100) * 9900 div 200
           \<and> 100 \<le> d1 \<and> d1 \<le> d2 \<and> d2 \<le> 10000
           \<and> (s1 = - 100 \<longrightarrow> d1 = 100) \<and> (s2 = 100 \<longrightarrow> d2 = 10000)"
proof -
  have r1: "- 100 \<le> s1" "s1 \<le> 100" and r2: "- 100 \<le> s2" "s2 \<le> 100"
    using assms by auto
  have t: "trunc s1 \<le> trunc s2" using assms(2) by (rule trunc_mono)
  have b1: "- 100 \<le> trunc s1" and b2: "trunc s2 \<le> 100"
    using to_int_sensation(2) [OF r1] to_int_sensation(3) [OF r2] by auto
  have m: "(trunc s1 + 100) * 9900 div 200 \<le> (trunc s2 + 100) * 9900 div 200"
    using t by (intro zdiv_mono1) auto
  have lo: "0 \<le> (trunc s1 + 100) * 9900 div 200"
    using b1 by (intro pos_imp_zdiv_nonneg_iff [THEN iffD2]) auto
  have "(trunc s2 + 100) * 9900 div 200 \<le> 1980000 div 200"
    using b2 by (intro zdiv_mono1) auto
  then have hi: "(trunc s2 + 100) * 9900 div 200 \<le> 9900" by simp
  show ?thesis
    using setSensation_StopNGo_delay [OF r1, of p] setSensation_StopNGo_delay [OF r2, of p] m lo hi
    by auto
qed

text \<open>The two ends of the range, on a new \<^verbatim>\<open>StopNGo\<close>.\<close>

theorem StopNGo_delay_nondecreasing_witness:
  "(- 100 :: real) \<le> - 100 \<and> (- 100 :: real) \<le> 100 \<and> (100 :: real) \<le> 100
   \<and> map_option m_delayInMillis (setSensation_StopNGo (- 100) (new_StopNGo ''StopNGo'' 0 0 0)) = Some 100
   \<and> map_option m_delayInMillis (setSensation_StopNGo 100 (new_StopNGo ''StopNGo'' 0 0 0)) = Some 10000"
  using StopNGo_delay_nondecreasing [of "- 100" 100 "new_StopNGo ''StopNGo'' 0 0 0"] by auto

text \<open>
  C3 as stated asks for 10000 ms at \<open>s = -100\<close> and 100 ms at \<open>s = 100\<close>; the code stores
  the opposite.
\<close>

theorem StopNGo_delay_counterexample:
  "map_option m_delayInMillis (setSensation_StopNGo (- 100) (new_StopNGo ''StopNGo'' 0 0 0)) = Some 100
   \<and> map_option m_delayInMillis (setSensation_StopNGo 100 (new_StopNGo ''StopNGo'' 0 0 0)) = Some 10000"
  by (simp add: setSensation_StopNGo_def sensationDelay_def arduino_map_def tdiv_def
      updateDelay_def new_StopNGo_def is_int32_def trunc_def)

lemma uint_word_of_int_32: "0 \<le> i \<Longrightarrow> i < 2 ^ 32 \<Longrightarrow> uint (word_of_int i :: 32 word) = i"
  by (simp add: uint_word_of_int take_bit_int_eq_self)

lemma unat_word_of_int_32: "0 \<le> i \<Longrightarrow> i < 2 ^ 32 \<Longrightarrow> unat (word_of_int i :: 32 word) = nat i"
  by (simp add: unat_eq_nat_uint uint_word_of_int_32)

lemma sint_eq_uint_32:
  assumes "uint (w :: 32 word) < 2 ^ 31"
  shows "sint w = uint w"
proof -
  have "- (2 ^ 31) \<le> (0::int)" by simp
  also have "0 \<le> uint w" by simp
  finally have "- (2 ^ 31) \<le> uint w" .
  then have "signed_take_bit 31 (uint w) = uint w"
    using assms by (rule signed_take_bit_int_eq_self)
  then show ?thesis by (simp add: sint_uint)
qed

lemma speedDivisor_ge_1:
  assumes "is_int32 (m_speed p)" "1 \<le> m_maxSpeed p"
  shows "1 \<le> speedDivisor p"
proof (cases "m_speed p < 1")
  case True
  then show ?thesis by (simp add: speedDivisor_def constrain_u_def)
next
  case False
  then have "uint (word_of_int (m_speed p) :: 32 word) = m_speed p"
    using assms(1) by (intro uint_word_of_int_32) (auto simp: is_int32_def)
  then have "1 \<le> (word_of_int (m_speed p) :: 32 word)"
    using False by (simp add: word_le_def)
  then show ?thesis
    using False assms(2) by (simp add: speedDivisor_def constrain_u_def)
qed

lemma unat_ge_1: "1 \<le> (w :: 32 word) \<Longrightarrow> real (unat w) \<noteq> 0"
  by (metis of_nat_0_eq_iff unat_eq_zero word_le_0_iff zero_neq_one)

text \<open>
  C7, amended. When \<^verbatim>\<open>_maxSpeed\<close> is at least 1, the divisor
  \<^verbatim>\<open>constrain(_speed, 1, _maxSpeed)\<close> is at least 1 for every \<^verbatim>\<open>int\<close> value of
  \<^verbatim>\<open>_speed\<close>, zero and negative values included, and \<^verbatim>\<open>_calTimeOfStroke\<close> and its
  override with the factor 2 return the finite quotient.
\<close>

theorem timeOfStroke_divisor_positive:
  assumes "is_int32 (m_speed p)" "1 \<le> m_maxSpeed p"
  shows "1 \<le> speedDivisor p
       \<and> calTimeOfStroke p =
           Fin (real_of_int (min \<bar>m_depth p\<bar> \<bar>m_stroke p\<bar>) / real (unat (speedDivisor p)))
       \<and> calTimeOfStroke2 p =
           Fin (2 * real_of_int (min \<bar>m_depth p\<bar> \<bar>m_stroke p\<bar>) / real (unat (speedDivisor p)))"
  using speedDivisor_ge_1 [OF assms] unat_ge_1 [of "speedDivisor p"]
  by (simp add: calTimeOfStroke_def calTimeOfStroke2_def calRangeOfStroke_def xint_def xuns_def)

text \<open>A pattern with the limits set and the speed 0.\<close>

theorem timeOfStroke_divisor_positive_witness:
  "is_int32 (m_speed (setSpeedLimit 1000 10000 80 (new_Pattern ''Pattern'' 1000 1000 0)))
   \<and> 1 \<le> m_maxSpeed (setSpeedLimit 1000 10000 80 (new_Pattern ''Pattern'' 1000 1000 0))
   \<and> 1 \<le> speedDivisor (setSpeedLimit 1000 10000 80 (new_Pattern ''Pattern'' 1000 1000 0))
   \<and> calTimeOfStroke (setSpeedLimit 1000 10000 80 (new_Pattern ''Pattern'' 1000 1000 0)) = Fin 1000"
  using timeOfStroke_divisor_positive [of "setSpeedLimit 1000 10000 80 (new_Pattern ''Pattern'' 1000 1000 0)"]
  by (simp add: setSpeedLimit_def new_Pattern_def is_int32_def speedDivisor_def constrain_u_def)

text \<open>
  C7 as stated fails on a pattern whose limits are not set: \<^verbatim>\<open>_maxSpeed\<close> is
  initialized to 0, \<^verbatim>\<open>constrain(5, 1, 0)\<close> is 0, and the stroke time is infinite.
\<close>

theorem timeOfStroke_divisor_counterexample:
  "speedDivisor (new_Pattern ''Pattern'' 1000 1000 5) = 0
   \<and> calTimeOfStroke (new_Pattern ''Pattern'' 1000 1000 5) = PInf
   \<and> calTimeOfStroke2 (new_Pattern ''Pattern'' 1000 1000 5) = PInf"
  by (simp add: new_Pattern_def speedDivisor_def constrain_u_def calTimeOfStroke_def
      calTimeOfStroke2_def calRangeOfStroke_def xint_def xuns_def)

lemma countStrokesForRamp_eq:
  assumes "- 100 \<le> s" "s \<le> 100"
  shows "countStrokesForRamp s =
         Some (if s < 0 then (trunc s + 100) * 9 div 100 + 2 else trunc s * 21 div 100 + 11)"
proof (cases "s < 0")
  case True
  then show ?thesis
    using to_int_sensation [OF assms]
    by (simp add: countStrokesForRamp_def arduino_map_def tdiv_nonneg)
next
  case False
  then have "0 \<le> trunc s" using trunc_ge [of 0 s] by simp
  then show ?thesis
    using to_int_sensation [OF assms] False
    by (simp add: countStrokesForRamp_def arduino_map_def tdiv_nonneg)
qed

lemma ramp_neg_bounds:
  assumes "- 100 \<le> (t::int)" "t \<le> 0"
  shows "2 \<le> (t + 100) * 9 div 100 + 2" "(t + 100) * 9 div 100 + 2 \<le> 11"
proof -
  have "0 \<le> (t + 100) * 9 div 100" using assms by (intro pos_imp_zdiv_nonneg_iff [THEN iffD2]) auto
  then show "2 \<le> (t + 100) * 9 div 100 + 2" by simp
  have "(t + 100) * 9 div 100 \<le> 900 div 100" using assms by (intro zdiv_mono1) auto
  then show "(t + 100) * 9 div 100 + 2 \<le> 11" by simp
qed

lemma ramp_pos_bounds:
  assumes "0 \<le> (t::int)" "t \<le> 100"
  shows "11 \<le> t * 21 div 100 + 11" "t * 21 div 100 + 11 \<le> 32"
proof -
  have "0 \<le> t * 21 div 100" using assms by (intro pos_imp_zdiv_nonneg_iff [THEN iffD2]) auto
  then show "11 \<le> t * 21 div 100 + 11" by simp
  have "t * 21 div 100 \<le> 2100 div 100" using assms by (intro zdiv_mono1) auto
  then show "t * 21 div 100 + 11 \<le> 32" by simp
qed

lemma countStrokesForRamp_range:
  assumes "- 100 \<le> s" "s \<le> 100"
  shows "\<exists>r. countStrokesForRamp s = Some r \<and> 2 \<le> r \<and> r \<le> 32
             \<and> (s < 0 \<longrightarrow> r \<le> 11) \<and> (0 \<le> s \<longrightarrow> 11 \<le> r)"
proof (cases "s < 0")
  case True
  then have "trunc s \<le> 0" using trunc_le [of s 0] by simp
  then show ?thesis
    using True countStrokesForRamp_eq [OF assms] to_int_sensation(2) [OF assms]
      ramp_neg_bounds [of "trunc s"] by simp
next
  case False
  then have "0 \<le> trunc s" using trunc_ge [of 0 s] by simp
  then show ?thesis
    using False countStrokesForRamp_eq [OF assms] to_int_sensation(3) [OF assms]
      ramp_pos_bounds [of "trunc s"] by simp
qed

lemma countStrokesForRamp_mono:
  assumes "- 100 \<le> s1" "s1 \<le> s2" "s2 \<le> 100"
  shows "\<exists>r1 r2. countStrokesForRamp s1 = Some r1 \<and> countStrokesForRamp s2 = Some r2 \<and> r1 \<le> r2"
proof -
  have r1: "- 100 \<le> s1" "s1 \<le> 100" and r2: "- 100 \<le> s2" "s2 \<le> 100"
    using assms by auto
  have t: "trunc s1 \<le> trunc s2" using assms(2) by (rule trunc_mono)
  consider "s2 < 0" | "s1 < 0" "0 \<le> s2" | "0 \<le> s1" using assms(2) by linarith
  then show ?thesis
  proof cases
    case 1
    then have "s1 < 0" using assms(2) by simp
    moreover have "(trunc s1 + 100) * 9 div 100 \<le> (trunc s2 + 100) * 9 div 100"
      using t by (intro zdiv_mono1) auto
    ultimately show ?thesis
      using 1 countStrokesForRamp_eq [OF r1] countStrokesForRamp_eq [OF r2] by simp
  next
    case 2
    then show ?thesis
      using countStrokesForRamp_range [OF r1] countStrokesForRamp_range [OF r2] by force
  next
    case 3
    then have "0 \<le> s2" using assms(2) by simp
    moreover have "trunc s1 * 21 div 100 \<le> trunc s2 * 21 div 100"
      using t by (intro zdiv_mono1) auto
    ultimately show ?thesis
      using 3 countStrokesForRamp_eq [OF r1] countStrokesForRamp_eq [OF r2] by simp
  qed
qed

lemma cycleIndex_nat:
  assumes "1 \<le> L" "L < 2 ^ 31"
  shows "cycleIndex index L = int (unat index div 2 mod nat L) + 1"
proof -
  have uL: "unat (word_of_int L :: 32 word) = nat L"
    using assms by (intro unat_word_of_int_32) auto
  have m: "unat (index div 2 mod word_of_int L) = unat index div 2 mod nat L"
    by (simp add: unat_mod unat_div uL)
  have lt: "unat index div 2 mod nat L < nat L" using assms by simp
  have "nat L < 2 ^ 31" using assms by (simp add: nat_less_iff)
  then have b: "unat index div 2 mod nat L + 1 < 2 ^ 31" using lt by linarith
  have u1: "unat (index div 2 mod word_of_int L + 1) = unat index div 2 mod nat L + 1"
    using b m by (simp add: unat_word_ariths)
  show ?thesis
    unfolding cycleIndex_def
    using sint_eq_uint_32 [of "index div 2 mod word_of_int L + 1"] u1 b
    by (simp add: uint_nat)
qed

lemma cycleIndex_period:
  assumes "1 \<le> L" "L < 2 ^ 31" "unat index + 2 * nat L < 2 ^ 32"
  shows "cycleIndex (index + 2 * word_of_int L) L = cycleIndex index L"
proof -
  have uL: "unat (word_of_int L :: 32 word) = nat L"
    using assms by (intro unat_word_of_int_32) auto
  have "unat (index + 2 * word_of_int L) = unat index + 2 * nat L"
    using assms(3) uL by (simp add: unat_word_ariths)
  then show ?thesis
    by (simp add: cycleIndex_nat [OF assms(1,2)])
qed

lemma cycleIndex_range:
  assumes "1 \<le> L" "L < 2 ^ 31"
  shows "1 \<le> cycleIndex index L" "cycleIndex index L \<le> L"
proof -
  have "unat index div 2 mod nat L < nat L" using assms by simp
  then have "int (unat index div 2 mod nat L) < L" using assms by linarith
  then show "1 \<le> cycleIndex index L" "cycleIndex index L \<le> L"
    by (simp_all add: cycleIndex_nat [OF assms])
qed

lemma cycleIndex_next:
  assumes "1 \<le> L" "L < 2 ^ 31" "unat index + 2 < 2 ^ 32"
  shows "cycleIndex (index + 2) L = (if cycleIndex index L = L then 1 else cycleIndex index L + 1)"
proof -
  have "unat (index + 2) = unat index + 2"
    using assms(3) by (simp add: unat_word_ariths)
  then have "cycleIndex (index + 2) L = int (Suc (unat index div 2) mod nat L) + 1"
    by (simp add: cycleIndex_nat [OF assms(1,2)])
  moreover have "0 < nat L" using assms by simp
  ultimately show ?thesis
    using assms(1) by (auto simp: cycleIndex_nat [OF assms(1,2)] mod_Suc)
qed

text \<open>\<^verbatim>\<open>Deeper::nextTarget\<close> stores the ramp length it computed from the sensation.\<close>

lemma nextTarget_Deeper_count:
  assumes "m_speed p \<noteq> 0" "nextTarget_Deeper i p = Some (mv, p')"
  shows "countStrokesForRamp (m_sensation p) = Some (dp_countStrokesForRamp p')"
  using assms
  by (auto simp: nextTarget_Deeper_def Let_def bind_eq_Some_conv split: if_splits)

text \<open>
  C8. For \<^verbatim>\<open>Deeper\<close>, the ramp length computed from a sensation in \<open>[-100, 100]\<close> is
  non-decreasing in the sensation and lies in \<open>[2, 32]\<close>. For a fixed ramp length \<open>L\<close>
  the cycle index \<^verbatim>\<open>(index / 2) % L + 1\<close> lies in \<open>1..L\<close>, steps from one stroke pair
  to the next by one and from \<open>L\<close> back to 1, and so repeats after \<open>L\<close> stroke pairs
  (\<open>2 * L\<close> indices), as long as the unsigned index does not wrap around.
\<close>

theorem Deeper_ramp_length_and_cycle:
  "(\<forall>s1 s2. - 100 \<le> s1 \<and> s1 \<le> s2 \<and> s2 \<le> 100 \<longrightarrow>
      (\<exists>r1 r2. countStrokesForRamp s1 = Some r1 \<and> countStrokesForRamp s2 = Some r2
         \<and> 2 \<le> r1 \<and> r1 \<le> r2 \<and> r2 \<le> 32))
   \<and> (\<forall>index L. 1 \<le> L \<and> L < 2 ^ 31 \<longrightarrow>
        1 \<le> cycleIndex index L \<and> cycleIndex index L \<le> L
        \<and> (unat index + 2 < 2 ^ 32 \<longrightarrow>
             cycleIndex (index + 2) L = (if cycleIndex index L = L then 1 else cycleIndex index L + 1))
        \<and> (unat index + 2 * nat L < 2 ^ 32 \<longrightarrow>
             cycleIndex (index + 2 * word_of_int L) L = cycleIndex index L))"
proof (intro conjI allI impI)
  fix s1 s2 :: real
  assume a: "- 100 \<le> s1 \<and> s1 \<le> s2 \<and> s2 \<le> 100"
  then have r1: "- 100 \<le> s1" "s1 \<le> 100" and r2: "- 100 \<le> s2" "s2 \<le> 100" by auto
  from a countStrokesForRamp_mono [of s1 s2]
  obtain r1 r2 where "countStrokesForRamp s1 = Some r1" "countStrokesForRamp s2 = Some r2" "r1 \<le> r2"
    by auto
  then show "\<exists>r1 r2. countStrokesForRamp s1 = Some r1 \<and> countStrokesForRamp s2 = Some r2
         \<and> 2 \<le> r1 \<and> r1 \<le> r2 \<and> r2 \<le> 32"
    using countStrokesForRamp_range [OF r1] countStrokesForRamp_range [OF r2] by auto
next
  fix index :: uint32 and L :: int
  assume "1 \<le> L \<and> L < 2 ^ 31"
  then show "1 \<le> cycleIndex index L" "cycleIndex index L \<le> L"
    using cycleIndex_range [of L index] by auto
next
  fix index :: uint32 and L :: int
  assume "1 \<le> L \<and> L < 2 ^ 31" "unat index + 2 < 2 ^ 32"
  then show "cycleIndex (index + 2) L = (if cycleIndex index L = L then 1 else cycleIndex index L + 1)"
    using cycleIndex_next [of L index] by auto
next
  fix index :: uint32 and L :: int
  assume "1 \<le> L \<and> L < 2 ^ 31" "unat index + 2 * nat L < 2 ^ 32"
  then show "cycleIndex (index + 2 * word_of_int L) L = cycleIndex index L"
    using cycleIndex_period [of L index] by auto
qed

text \<open>The ends of the sensation range, and the ramp length 11 at index 20.\<close>

theorem Deeper_ramp_length_and_cycle_witness:
  "(- 100 :: real) \<le> - 100 \<and> (- 100 :: real) \<le> 100 \<and> (100 :: real) \<le> 100
   \<and> countStrokesForRamp (- 100) = Some 2 \<and> countStrokesForRamp 100 = Some 32
   \<and> (1 :: int) \<le> 11 \<and> (11 :: int) < 2 ^ 31 \<and> unat (20 :: uint32) + 2 * nat 11 < 2 ^ 32
   \<and> cycleIndex 20 11 = 11 \<and> cycleIndex (20 + 2) 11 = 1
   \<and> cycleIndex (20 + 2 * word_of_int 11) 11 = cycleIndex 20 11"
proof -
  have v: "countStrokesForRamp (- 100) = Some 2" "countStrokesForRamp 100 = Some 32"
    "cycleIndex 20 11 = 11"
    by (simp_all add: countStrokesForRamp_def arduino_map_def tdiv_def is_int32_def cycleIndex_def)
  show ?thesis
    using Deeper_ramp_length_and_cycle [THEN conjunct2, THEN spec, THEN spec, of 11 20] v
    by simp
qed

section \<open>Clamps and the idle state\<close>




lemma trunc_unsigned [simp]: "trunc (unsigned (w :: 32 word)) = uint w"
  using trunc_of_int [of "uint w"] by simp







lemma unat_lt_2p32: "unat (w :: 32 word) < 2 ^ 32"
  using unsigned_less [of w, where ?'a = nat] by simp

lemma trunc_percent_5: "trunc (0.05 * real n) = int (n div 20)"
proof -
  have "0.05 * real n = real n / real 20" by simp
  then have "\<lfloor>0.05 * real n\<rfloor> = int (n div 20)"
    by (simp only: floor_divide_of_nat_eq)
  then show ?thesis by (simp add: trunc_def)
qed

lemma trunc_percent_50: "trunc (0.5 * real n) = int (n div 2)"
proof -
  have "0.5 * real n = real n / real 2" by simp
  then have "\<lfloor>0.5 * real n\<rfloor> = int (n div 2)"
    by (simp only: floor_divide_of_nat_eq)
  then show ?thesis by (simp add: trunc_def)
qed

lemma percent_bounds:
  "0 \<le> uint (w :: 32 word) * 5 div 100" "uint w * 5 div 100 \<le> uint w"
  "0 \<le> uint w * 50 div 100" "uint w * 50 div 100 \<le> uint w"
  "is_int32 (uint w * 5 div 100)" "is_int32 (uint w * 50 div 100)"
proof -
  have a: "0 \<le> uint w" by simp
  have b: "uint w < 4294967296" using uint_lt2p [of w] by simp
  from a show "0 \<le> uint w * 5 div 100" "uint w * 5 div 100 \<le> uint w"
    "0 \<le> uint w * 50 div 100" "uint w * 50 div 100 \<le> uint w"
    by linarith+
  from a b have "- 2147483648 \<le> uint w * 5 div 100 \<and> uint w * 5 div 100 < 2147483648"
    by linarith
  then show "is_int32 (uint w * 5 div 100)" by (simp add: is_int32_def)
  from a b have "- 2147483648 \<le> uint w * 50 div 100 \<and> uint w * 50 div 100 < 2147483648"
    by linarith
  then show "is_int32 (uint w * 50 div 100)" by (simp add: is_int32_def)
qed

lemma idleSpeed_eq: "idleSpeed p = Some (uint (m_maxSpeed p) * 5 div 100)"
proof -
  let ?n = "unat (m_maxSpeed p)"
  have "int (?n div 20) = uint (m_maxSpeed p) * 5 div 100" by (simp add: zdiv_int)
  then have t: "trunc (0.05 * real ?n) = uint (m_maxSpeed p) * 5 div 100"
    by (simp only: trunc_percent_5)
  have r: "is_int32 (uint (m_maxSpeed p) * 5 div 100)" by (rule percent_bounds)
  show ?thesis
    unfolding idleSpeed_def xuns_def xmul.simps to_int.simps t using r by simp
qed

lemma idleAcceleration_eq: "idleAcceleration p = Some (uint (m_maxAcceleration p) * 50 div 100)"
proof -
  let ?n = "unat (m_maxAcceleration p)"
  have "int (?n div 2) = uint (m_maxAcceleration p) * 50 div 100" by (simp add: zdiv_int)
  then have t: "trunc (0.5 * real ?n) = uint (m_maxAcceleration p) * 50 div 100"
    by (simp only: trunc_percent_50)
  have r: "is_int32 (uint (m_maxAcceleration p) * 50 div 100)" by (rule percent_bounds)
  show ?thesis
    unfolding idleAcceleration_def xuns_def xmul.simps to_int.simps t using r by simp
qed

lemma setIdleState_eq: "setIdleState p = Some (idleFallback p, p\<lparr>m_nextMove := idleFallback p\<rparr>)"
  by (simp add: setIdleState_def idleSpeed_eq idleAcceleration_eq idleFallback_def Let_def)















section \<open>Commands within the limits\<close>

text \<open>The definitions a concrete call unfolds.\<close>

lemmas eval_defs =
  configure_def setSpeed_def setStroke_def setDepth_def setSensation_def setSpeedLimit_def
  calTimeOfStroke_def calTimeOfStroke2_def calRangeOfStroke_def speedDivisor_def
  constrain_i_def constrain_u_def constrain_d_def xint_def xuns_def is_int32_def trunc_def
  Let_def tdiv_def arduino_map_def fscale_def
  idleSpeed_def idleAcceleration_def setIdleState_def strokeFraction_def




section \<open>The idle fallback\<close>


lemma trunc_scaled:
  assumes "0 \<le> f" "f \<le> 1"
  shows "0 \<le> s \<Longrightarrow> 0 \<le> trunc (of_int s * f) \<and> trunc (of_int s * f) \<le> s"
    and "s \<le> 0 \<Longrightarrow> s \<le> trunc (of_int s * f) \<and> trunc (of_int s * f) \<le> 0"
proof -
  assume s: "0 \<le> s"
  then have "0 \<le> real_of_int s * f" using assms by simp
  moreover have "real_of_int s * f \<le> real_of_int s"
    using s assms by (simp add: mult_left_le)
  ultimately show "0 \<le> trunc (of_int s * f) \<and> trunc (of_int s * f) \<le> s"
    using trunc_ge [of 0 "of_int s * f"] trunc_le [of "of_int s * f" s] by simp
next
  assume s: "s \<le> 0"
  then have "real_of_int s * f \<le> 0" using assms by (simp add: mult_nonpos_nonneg)
  moreover have "real_of_int s \<le> real_of_int s * f"
    using s assms by (metis mult.right_neutral mult_left_mono_neg of_int_le_0_iff)
  ultimately show "s \<le> trunc (of_int s * f) \<and> trunc (of_int s * f) \<le> 0"
    using trunc_ge [of s "of_int s * f"] trunc_le [of "of_int s * f" 0] by simp
qed


lemma trunc_scaled_abs:
  assumes "0 \<le> f" "f \<le> 1"
  shows "\<bar>trunc (of_int s * f)\<bar> \<le> \<bar>s\<bar>"
  using trunc_scaled [OF assms, of s] by (cases "0 \<le> s") auto







section \<open>Insist: the reduced stroke\<close>




section \<open>The split of the stroke time\<close>

lemma fscale_gain: "1 \<le> fscale 0 100 1 5 a"
  by (simp add: fscale_def Let_def max_def min_def)

lemma fscale_gain_neutral: "fscale 0 100 1 5 \<bar>0\<bar> = 1"
  by (simp add: fscale_def Let_def)

lemma timeOfFastStroke_Fin:
  "timeOfFastStroke (Fin t) s = Fin (0.5 * t / fscale 0 100 1 5 \<bar>s\<bar>)"
  using fscale_gain [of "\<bar>s\<bar>"] by (simp add: timeOfFastStroke_def)

text \<open>
  In exact arithmetic, \<^verbatim>\<open>_updateStrokeTiming\<close> of \<^verbatim>\<open>TeasingPounding\<close> and of \<^verbatim>\<open>HalfnHalf\<close>
  splits a finite stroke time into two times that add up to it, for every sensation, and
  that are equal at sensation 0. The source computes the slower time as the \<^verbatim>\<open>float\<close>
  difference \<^verbatim>\<open>_timeOfStroke - _timeOfFastStroke\<close>, which IEEE arithmetic rounds: there the
  sum is the stroke time only up to that rounding, which is outside this model.
\<close>

lemma stroke_timing_split_exact:
  "(\<forall>p t. tp_timeOfStroke p = Fin t \<longrightarrow>
      (\<exists>a b. tp_timeOfInStroke (updateStrokeTiming_TeasingPounding p) = Fin a
         \<and> tp_timeOfOutStroke (updateStrokeTiming_TeasingPounding p) = Fin b
         \<and> a + b = t \<and> (m_sensation p = 0 \<longrightarrow> a = b)))
   \<and> (\<forall>p t. hh_timeOfStroke p = Fin t \<longrightarrow>
      (\<exists>a b. hh_timeOfInStroke (updateStrokeTiming_HalfnHalf p) = Fin a
         \<and> hh_timeOfOutStroke (updateStrokeTiming_HalfnHalf p) = Fin b
         \<and> a + b = t \<and> (m_sensation p = 0 \<longrightarrow> a = b)))"
proof (intro conjI allI impI)
  fix p :: TeasingPounding and t
  assume t: "tp_timeOfStroke p = Fin t"
  show "\<exists>a b. tp_timeOfInStroke (updateStrokeTiming_TeasingPounding p) = Fin a
         \<and> tp_timeOfOutStroke (updateStrokeTiming_TeasingPounding p) = Fin b
         \<and> a + b = t \<and> (m_sensation p = 0 \<longrightarrow> a = b)"
    using fscale_gain_neutral
    by (simp add: updateStrokeTiming_TeasingPounding_def Let_def t timeOfFastStroke_Fin)
next
  fix p :: HalfnHalf and t
  assume t: "hh_timeOfStroke p = Fin t"
  show "\<exists>a b. hh_timeOfInStroke (updateStrokeTiming_HalfnHalf p) = Fin a
         \<and> hh_timeOfOutStroke (updateStrokeTiming_HalfnHalf p) = Fin b
         \<and> a + b = t \<and> (m_sensation p = 0 \<longrightarrow> a = b)"
    using fscale_gain_neutral
    by (simp add: updateStrokeTiming_HalfnHalf_def Let_def t timeOfFastStroke_Fin)
qed

section \<open>HalfnHalf: what the half flag changes\<close>

lemma HalfnHalf_rates_any_half:
  "map_option rates (nextTarget_HalfnHalf i (p\<lparr>hh_half := h\<rparr>))
     = map_option rates (nextTarget_HalfnHalf i p)"
  by (simp add: nextTarget_HalfnHalf_def updateStrokeTiming_HalfnHalf_def Let_def rates_def
      setIdleState_eq idleFallback_def calTimeOfStroke2_def calRangeOfStroke_def speedDivisor_def
      map_option_bind comp_def
      cong: Option.bind_cong)

lemma HalfnHalf_target_odd:
  "i mod 2 \<noteq> 0 \<Longrightarrow>
   map_option fst (nextTarget_HalfnHalf i (p\<lparr>hh_half := h\<rparr>))
     = map_option fst (nextTarget_HalfnHalf i p)"
  by (simp add: nextTarget_HalfnHalf_def updateStrokeTiming_HalfnHalf_def Let_def
      setIdleState_eq idleFallback_def calTimeOfStroke2_def calRangeOfStroke_def speedDivisor_def
      map_option_bind comp_def
      cong: Option.bind_cong)

lemma HalfnHalf_full_stroke:
  assumes "m_speed p \<noteq> 0" "nextTarget_HalfnHalf i p = Some (mv, q)"
  shows "\<exists>v w. to_int (xdiv (xmul (Fin 1.5) (xint (m_stroke p)))
                 (if i mod 2 \<noteq> 0 then hh_timeOfOutStroke q else hh_timeOfInStroke q)) = Some v
          \<and> speed mv = sint (constrain_u v 0 (m_maxSpeed p))
          \<and> to_int (xdiv (xmul (Fin 3) (xint (speed mv)))
                 (if i mod 2 \<noteq> 0 then hh_timeOfOutStroke q else hh_timeOfInStroke q)) = Some w
          \<and> acceleration mv = sint (constrain_u w 0 (m_maxAcceleration p))"
  using assms
  by (auto simp: nextTarget_HalfnHalf_def updateStrokeTiming_HalfnHalf_def Let_def
      bind_eq_Some_conv split: if_splits)

text \<open>
  C10. For \<^verbatim>\<open>HalfnHalf\<close>, two calls on states that differ only in \<^verbatim>\<open>_half\<close> return
  commands with the same speed, acceleration and skip flag, and for an odd index the same
  target too: the flag can only change the target of an even index. The speed is
  computed from the full \<^verbatim>\<open>_stroke\<close> and the acceleration from that speed.
\<close>

theorem HalfnHalf_half_flag_frame:
  "map_option rates (nextTarget_HalfnHalf i (p\<lparr>hh_half := True\<rparr>))
     = map_option rates (nextTarget_HalfnHalf i (p\<lparr>hh_half := False\<rparr>))
   \<and> (i mod 2 \<noteq> 0 \<longrightarrow>
        map_option fst (nextTarget_HalfnHalf i (p\<lparr>hh_half := True\<rparr>))
          = map_option fst (nextTarget_HalfnHalf i (p\<lparr>hh_half := False\<rparr>)))
   \<and> (\<forall>mv q. m_speed p \<noteq> 0 \<and> nextTarget_HalfnHalf i p = Some (mv, q) \<longrightarrow>
        (\<exists>v w. to_int (xdiv (xmul (Fin 1.5) (xint (m_stroke p)))
                 (if i mod 2 \<noteq> 0 then hh_timeOfOutStroke q else hh_timeOfInStroke q)) = Some v
          \<and> speed mv = sint (constrain_u v 0 (m_maxSpeed p))
          \<and> to_int (xdiv (xmul (Fin 3) (xint (speed mv)))
                 (if i mod 2 \<noteq> 0 then hh_timeOfOutStroke q else hh_timeOfInStroke q)) = Some w
          \<and> acceleration mv = sint (constrain_u w 0 (m_maxAcceleration p))))"
proof (intro conjI allI impI)
  show "map_option rates (nextTarget_HalfnHalf i (p\<lparr>hh_half := True\<rparr>))
     = map_option rates (nextTarget_HalfnHalf i (p\<lparr>hh_half := False\<rparr>))"
    by (simp add: HalfnHalf_rates_any_half)
next
  assume "i mod 2 \<noteq> 0"
  then show "map_option fst (nextTarget_HalfnHalf i (p\<lparr>hh_half := True\<rparr>))
          = map_option fst (nextTarget_HalfnHalf i (p\<lparr>hh_half := False\<rparr>))"
    by (simp add: HalfnHalf_target_odd)
next
  fix mv q
  assume "m_speed p \<noteq> 0 \<and> nextTarget_HalfnHalf i p = Some (mv, q)"
  then show "\<exists>v w. to_int (xdiv (xmul (Fin 1.5) (xint (m_stroke p)))
                 (if i mod 2 \<noteq> 0 then hh_timeOfOutStroke q else hh_timeOfInStroke q)) = Some v
          \<and> speed mv = sint (constrain_u v 0 (m_maxSpeed p))
          \<and> to_int (xdiv (xmul (Fin 3) (xint (speed mv)))
                 (if i mod 2 \<noteq> 0 then hh_timeOfOutStroke q else hh_timeOfInStroke q)) = Some w
          \<and> acceleration mv = sint (constrain_u w 0 (m_maxAcceleration p))"
    using HalfnHalf_full_stroke [of p i mv q] by simp
qed

text \<open>
  Index 2 after the setter calls: the half stroke targets 900, the full stroke 1000, with
  the same speed and acceleration; index 3 targets 800 in both.
\<close>

theorem HalfnHalf_half_flag_frame_witness:
  "map_option fst (nextTarget_HalfnHalf 2 ((configure (new_HalfnHalf ''Half and Half'' 0 0 0))\<lparr>hh_half := True\<rparr>))
     = Some \<lparr>stroke = 900, speed = 150, acceleration = 225, skip = False\<rparr>
   \<and> map_option fst (nextTarget_HalfnHalf 2 ((configure (new_HalfnHalf ''Half and Half'' 0 0 0))\<lparr>hh_half := False\<rparr>))
     = Some \<lparr>stroke = 1000, speed = 150, acceleration = 225, skip = False\<rparr>
   \<and> (3 :: uint32) mod 2 \<noteq> 0
   \<and> map_option fst (nextTarget_HalfnHalf 3 ((configure (new_HalfnHalf ''Half and Half'' 0 0 0))\<lparr>hh_half := True\<rparr>))
     = Some \<lparr>stroke = 800, speed = 150, acceleration = 225, skip = False\<rparr>
   \<and> map_option fst (nextTarget_HalfnHalf 3 ((configure (new_HalfnHalf ''Half and Half'' 0 0 0))\<lparr>hh_half := False\<rparr>))
     = Some \<lparr>stroke = 800, speed = 150, acceleration = 225, skip = False\<rparr>"
proof -
  let ?p = "configure (new_HalfnHalf ''Half and Half'' 0 0 0)"
  have e: "map_option fst (nextTarget_HalfnHalf 2 (?p\<lparr>hh_half := True\<rparr>))
     = Some \<lparr>stroke = 900, speed = 150, acceleration = 225, skip = False\<rparr>"
    "map_option fst (nextTarget_HalfnHalf 2 (?p\<lparr>hh_half := False\<rparr>))
     = Some \<lparr>stroke = 1000, speed = 150, acceleration = 225, skip = False\<rparr>"
    "map_option fst (nextTarget_HalfnHalf 3 (?p\<lparr>hh_half := True\<rparr>))
     = Some \<lparr>stroke = 800, speed = 150, acceleration = 225, skip = False\<rparr>"
    by (simp_all add: eval_defs new_HalfnHalf_def nextTarget_HalfnHalf_def
        updateStrokeTiming_HalfnHalf_def timeOfFastStroke_def)
  have o: "(3 :: uint32) mod 2 \<noteq> 0" by simp
  have "map_option fst (nextTarget_HalfnHalf 3 (?p\<lparr>hh_half := True\<rparr>))
          = map_option fst (nextTarget_HalfnHalf 3 (?p\<lparr>hh_half := False\<rparr>))"
    using HalfnHalf_half_flag_frame [of 3 ?p, THEN conjunct2, THEN conjunct1] o by blast
  then show ?thesis using e o by simp
qed

section \<open>RoboStroke: the split fraction\<close>

text \<open>
  C4, the code at the failing input. A new \<^verbatim>\<open>RoboStroke\<close> (sensation 0, \<^verbatim>\<open>_x = 1/3\<close>)
  with the speed 100 returns the cruise velocity \<open>100 / (1 - 1/3) = 150\<close> and the
  acceleration \<open>100 / (1/3) = 300\<close>, twice the cruise velocity and not three times. The
  split fraction stored for the sensations 0, 100 and -100 is 1/3, 1/2 and 1/20.
  \<^verbatim>\<open>SimplePenetration\<close> with the same settings has the stroke time 2 s and returns the
  cruise velocity 150 with the acceleration \<open>3 * 150 / 2 = 225\<close>.
\<close>

theorem RoboStroke_neutral_command:
  "map_option fst (nextTarget_RoboStroke 0 (configure (new_RoboStroke ''Robo Stroke'' 0 0 0)))
     = Some \<lparr>stroke = 1000, speed = 150, acceleration = 300, skip = False\<rparr>
   \<and> map_option (rs_x \<circ> snd) (nextTarget_RoboStroke 0 (configure (new_RoboStroke ''Robo Stroke'' 0 0 0)))
     = Some (1 / 3)
   \<and> rs_x (configure (new_RoboStroke ''Robo Stroke'' 0 0 0)) = 1 / 3
   \<and> scaleSensation 0 = 1 / 3 \<and> scaleSensation 100 = 1 / 2 \<and> scaleSensation (- 100) = 1 / 20
   \<and> calTimeOfStroke (configure (new_SimplePenetration ''Simple Penetration'' 0 0 0)) = Fin 2
   \<and> map_option fst (nextTarget_SimplePenetration 0
        (configure (new_SimplePenetration ''Simple Penetration'' 0 0 0)))
     = Some \<lparr>stroke = 0, speed = 150, acceleration = 225, skip = False\<rparr>"
  by (simp add: eval_defs new_RoboStroke_def nextTarget_RoboStroke_def scaleSensation_def
      new_SimplePenetration_def nextTarget_SimplePenetration_def)

text \<open>
  C5, the code at the failing input. After \<^verbatim>\<open>setSensation(100)\<close> on a new
  \<^verbatim>\<open>RoboStroke\<close> the first \<^verbatim>\<open>nextTarget(0)\<close> still computes with \<^verbatim>\<open>_x = 1/3\<close> and returns
  150 and 300; with the \<^verbatim>\<open>_x = 1/2\<close> of sensation 100 the same call returns 200 and 200,
  and so does the same call repeated on the state the first one left.
\<close>

theorem RoboStroke_sensation_lag:
  "map_option fst (nextTarget_RoboStroke 0
      (setSensation 100 (configure (new_RoboStroke ''Robo Stroke'' 0 0 0))))
     = Some \<lparr>stroke = 1000, speed = 150, acceleration = 300, skip = False\<rparr>
   \<and> map_option fst (nextTarget_RoboStroke 0
      ((setSensation 100 (configure (new_RoboStroke ''Robo Stroke'' 0 0 0)))
         \<lparr>rs_x := scaleSensation 100\<rparr>))
     = Some \<lparr>stroke = 1000, speed = 200, acceleration = 200, skip = False\<rparr>
   \<and> Option.bind (nextTarget_RoboStroke 0
        (setSensation 100 (configure (new_RoboStroke ''Robo Stroke'' 0 0 0))))
      (\<lambda>r. map_option fst (nextTarget_RoboStroke 0 (snd r)))
     = Some \<lparr>stroke = 1000, speed = 200, acceleration = 200, skip = False\<rparr>"
  by (simp add: eval_defs new_RoboStroke_def nextTarget_RoboStroke_def scaleSensation_def)

end
